theory Spec2Isabelle
  imports Main "HOL-Library.Sublist"
begin

section \<open>Signup form: client-side validation (SignupForm.tsx)\<close>

text \<open>
  The form state of \<^verbatim>\<open>SignupForm\<close>: four controlled inputs. JavaScript strings are
  modelled as \<^typ>\<open>string\<close>; \<^verbatim>\<open>s.length\<close> is the list length.
\<close>

record signup_form =
  f_name :: string
  f_email :: string
  f_password :: string
  f_confirmPassword :: string

text \<open>The argument of \<^verbatim>\<open>signup({ name, email, password })\<close>.\<close>

record SignupCredentials =
  sc_name :: string
  sc_email :: string
  sc_password :: string

text \<open>
  What one run of \<^verbatim>\<open>handleSubmit\<close> leaves behind: the value of the \<^verbatim>\<open>localError\<close>
  state (\<^verbatim>\<open>null\<close> is \<open>None\<close>) and the calls of the \<^verbatim>\<open>signup\<close> operation it issued.
\<close>

record submit_effects =
  localError :: "string option"
  signup_calls :: "SignupCredentials list"

text \<open>
  The characters \<^verbatim>\<open>String.prototype.trim\<close> strips (white space and line terminators),
  as far as they are characters of \<^typ>\<open>char\<close>: TAB, LF, VT, FF, CR, SPACE, NBSP.
\<close>

definition is_js_space :: "char \<Rightarrow> bool" where
  "is_js_space c =
     (c \<in> set [CHR 0x09, CHR 0x0A, CHR 0x0B, CHR 0x0C, CHR 0x0D, CHR 0x20, CHR 0xA0])"

definition trim :: "string \<Rightarrow> string" where
  "trim s = rev (dropWhile is_js_space (rev (dropWhile is_js_space s)))"

text \<open>A field is blank when it is empty or holds white space only.\<close>

definition blank :: "string \<Rightarrow> bool" where
  "blank s = list_all is_js_space s"

text \<open>
  \<^verbatim>\<open>handleSubmit\<close>: \<^verbatim>\<open>setLocalError(null)\<close>, then the five checks in the order of the
  source, each setting the message and returning; only when all pass is \<^verbatim>\<open>signup\<close>
  awaited (an exception it throws is caught and logged, which changes neither field).
  \<^verbatim>\<open>!s.trim()\<close> holds exactly when the trimmed string is empty.
\<close>

definition handleSubmit :: "signup_form \<Rightarrow> submit_effects" where
  "handleSubmit f =
     (if trim (f_name f) = [] then
        \<lparr>localError = Some ''Name is required'', signup_calls = []\<rparr>
      else if trim (f_email f) = [] then
        \<lparr>localError = Some ''Email is required'', signup_calls = []\<rparr>
      else if trim (f_password f) = [] then
        \<lparr>localError = Some ''Password is required'', signup_calls = []\<rparr>
      else if length (f_password f) < 8 then
        \<lparr>localError = Some ''Password must be at least 8 characters'', signup_calls = []\<rparr>
      else if f_password f \<noteq> f_confirmPassword f then
        \<lparr>localError = Some ''Passwords do not match'', signup_calls = []\<rparr>
      else
        \<lparr>localError = None,
         signup_calls = [\<lparr>sc_name = f_name f, sc_email = f_email f, sc_password = f_password f\<rparr>]\<rparr>)"

section \<open>Protected route (ProtectedRoute.tsx)\<close>

text \<open>
  The fields of the auth store the component reads. \<^verbatim>\<open>authRequired\<close> is
  \<^verbatim>\<open>boolean | null\<close>: \<open>None\<close> is \<^verbatim>\<open>null\<close> (not yet determined).
\<close>

record auth_store =
  hasHydrated :: bool
  authRequired :: "bool option"
  isAuthenticated :: bool

datatype view = Children | LoadingSpinner

text \<open>The render part of the component: four returns, in the order of the source.\<close>

definition ProtectedRoute :: "auth_store \<Rightarrow> view" where
  "ProtectedRoute s =
     (if \<not> hasHydrated s \<or> authRequired s = None then LoadingSpinner
      else if authRequired s = Some False then Children
      else if isAuthenticated s then Children
      else LoadingSpinner)"

text \<open>
  The two store operations the effect awaits are outside the component; their outcome
  is an input of the model. A promise either resolves to a value or rejects.
\<close>

datatype 'a settled = Resolved 'a | Rejected

text \<open>What the effect does to the browser: a session-storage write or a navigation.\<close>

datatype browser_action = SetItem string string | RouterPush string

definition redirect_to_login :: "string \<Rightarrow> browser_action list" where
  "redirect_to_login pathname = [SetItem ''redirectAfterLogin'' pathname, RouterPush ''/login'']"

text \<open>
  The effect \<^verbatim>\<open>checkAuthentication\<close>, run after every change of the store fields.
  \<open>car\<close> is how \<^verbatim>\<open>checkAuthRequired()\<close> settles, \<open>ca\<close> how \<^verbatim>\<open>checkAuth()\<close> does; each
  is consulted only where the source awaits it. A rejection of \<^verbatim>\<open>checkAuthRequired\<close>
  is caught and execution continues below the \<^verbatim>\<open>try\<close>; \<^verbatim>\<open>authRequired\<close> keeps the
  value of the render that started the effect. A rejection of \<^verbatim>\<open>checkAuth\<close> is not
  caught: the effect ends there.
\<close>

definition checkAuthentication ::
  "auth_store \<Rightarrow> string \<Rightarrow> bool settled \<Rightarrow> bool settled \<Rightarrow> browser_action list" where
  "checkAuthentication s pathname car ca =
     (if \<not> hasHydrated s then []
      else if authRequired s = None \<and> car = Resolved False then []
      else if authRequired s = Some False then []
      else if \<not> isAuthenticated s then redirect_to_login pathname
      else (case ca of
              Resolved True \<Rightarrow> []
            | Resolved False \<Rightarrow> redirect_to_login pathname
            | Rejected \<Rightarrow> []))"

section \<open>Row-level permissions (migration 10, step 1.5)\<close>

text \<open>
  \<^verbatim>\<open>$auth\<close>: the user record behind the authenticated connection, as far as the
  permission clauses read it.
\<close>

record auth =
  auth_id :: string
  auth_role :: string


text \<open>The tables step 1.5 defines permissions for, and the four operations it names.\<close>

datatype table = T_notebook | T_source | T_note

datatype operation = Select | Create | Update | Delete

text \<open>
  \<^verbatim>\<open>PERMISSIONS FOR select, create, update, delete WHERE user_id = $auth.id OR $auth.role = "admin"\<close>,
  one clause per table as the migration writes them. \<^verbatim>\<open>NONE\<close> equals no id.
\<close>

fun permissions :: "table \<Rightarrow> operation \<Rightarrow> auth \<Rightarrow> string option \<Rightarrow> bool" where
  "permissions T_notebook opn a user_id = (user_id = Some (auth_id a) \<or> auth_role a = ''admin'')"
| "permissions T_source opn a user_id = (user_id = Some (auth_id a) \<or> auth_role a = ''admin'')"
| "permissions T_note opn a user_id = (user_id = Some (auth_id a) \<or> auth_role a = ''admin'')"









section \<open>Domain model (notebook.py of the domain package)\<close>

text \<open>
  The fields of \<^verbatim>\<open>Notebook\<close>. \<^verbatim>\<open>archived: Optional[bool]\<close> and
  \<^verbatim>\<open>user_id: Optional[str]\<close> may be \<^verbatim>\<open>None\<close>; a client payload can set any of them.
\<close>

record Notebook =
  nb_name :: string
  nb_description :: string
  nb_archived :: "bool option"
  nb_user_id :: "string option"

text \<open>
  \<^verbatim>\<open>Notebook.create(self, user_id)\<close>: assigns \<^verbatim>\<open>self.user_id\<close>, then calls the base
  class's \<^verbatim>\<open>create\<close>. The base class is not among the sources, so its \<^verbatim>\<open>create\<close> is
  the parameter \<open>super_create\<close>, applied to the object it would persist. The result is
  the object after the call (Python mutates it in place) with what the base class
  returned.
\<close>

definition Notebook_create :: "(Notebook \<Rightarrow> 'r) \<Rightarrow> Notebook \<Rightarrow> string \<Rightarrow> Notebook \<times> 'r" where
  "Notebook_create super_create self user_id =
     (let self' = self\<lparr>nb_user_id := Some user_id\<rparr> in (self', super_create self'))"

section \<open>User table and record access (migration 10, steps 1.1, 1.2 and 1.4)\<close>

text \<open>A record of the \<^verbatim>\<open>user\<close> table, with the fields step 1.1 defines.\<close>

record user =
  u_id :: string
  u_email :: string
  u_password :: string
  u_name :: string
  u_role :: string
  u_created :: nat
  u_updated :: nat

text \<open>
  What the database contributes to one statement and the program does not compute:
  the clock (\<^verbatim>\<open>time::now()\<close>), the id it generates for a \<^verbatim>\<open>CREATE\<close> without one, the
  salted digest \<^verbatim>\<open>crypto::argon2::generate($password)\<close> yields in this call, the verdict of
  \<^verbatim>\<open>string::is_email\<close> on the submitted email, and the signed token it hands back.
\<close>

record surreal_env =
  env_now :: nat
  env_new_id :: string
  env_digest :: string
  env_email_ok :: bool
  env_token :: string

datatype db_error = FieldAssert string | RecordExists string | IndexExists string string

text \<open>
  \<^verbatim>\<open>CREATE\<close> on the user table: the \<^verbatim>\<open>ASSERT\<close> of the email field, a record id that is
  not taken, and \<^verbatim>\<open>DEFINE INDEX email_unique ON user FIELDS email UNIQUE\<close>: no stored
  record has the same email value. The index compares the stored strings as they are.
  The result is the table after the statement and the created record or the error.
\<close>

definition create_user :: "bool \<Rightarrow> user \<Rightarrow> user list \<Rightarrow> user list \<times> (db_error + user)" where
  "create_user email_ok u users =
     (if \<not> email_ok then (users, Inl (FieldAssert ''email''))
      else if u_id u \<in> set (map u_id users) then (users, Inl (RecordExists (u_id u)))
      else if u_email u \<in> set (map u_email users) then
        (users, Inl (IndexExists ''email_unique'' (u_email u)))
      else (users @ [u], Inr u))"

text \<open>
  The \<^verbatim>\<open>SIGNUP\<close> clause of \<^verbatim>\<open>DEFINE ACCESS user_access\<close>:
  \<^verbatim>\<open>CREATE user SET email = $email, name = $name, password = crypto::argon2::generate($password), role = "user"\<close>;
  \<^verbatim>\<open>created\<close> and \<^verbatim>\<open>updated\<close> take their default \<^verbatim>\<open>time::now()\<close>.
\<close>

definition access_signup ::
  "surreal_env \<Rightarrow> string \<Rightarrow> string \<Rightarrow> user list \<Rightarrow> user list \<times> (db_error + user)" where
  "access_signup env email name users =
     create_user (env_email_ok env)
       \<lparr>u_id = env_new_id env, u_email = email, u_password = env_digest env, u_name = name,
        u_role = ''user'', u_created = env_now env, u_updated = env_now env\<rparr>
       users"





text \<open>Modelled from the spec: the three ways the token service's validation fails.\<close>

datatype token_error = Malformed | BadSignature | Expired


section \<open>Auth endpoints (api/routers/auth.py)\<close>

text \<open>
  \<^verbatim>\<open>SignupRequest\<close> and \<^verbatim>\<open>TokenResponse\<close>, field by field. The email is an
  \<^verbatim>\<open>EmailStr\<close>: the value the request validation let through.
\<close>

record SignupRequest =
  rq_email :: string
  rq_password :: string
  rq_name :: string

record TokenResponse =
  tr_token :: string
  tr_user_id :: string
  tr_email :: string
  tr_name :: string

text \<open>The response body: the fields of the response model with their values, in order.\<close>

definition TokenResponse_fields :: "TokenResponse \<Rightarrow> (string \<times> string) list" where
  "TokenResponse_fields r =
     [(''token'', tr_token r), (''user_id'', tr_user_id r), (''email'', tr_email r),
      (''name'', tr_name r)]"

text \<open>The fields of \<^verbatim>\<open>AuthResponse\<close>, the type the frontend reads the response as (auth.ts).\<close>

definition AuthResponse_keys :: "string list" where
  "AuthResponse_keys = [''token'', ''user_id'', ''email'', ''name'', ''role'']"

text \<open>
  \<^verbatim>\<open>signup\<close>: \<^verbatim>\<open>db.signup\<close> with the request's email, password and name runs the access
  method's \<^verbatim>\<open>SIGNUP\<close> clause; an error of the database is not caught and ends the request.
  Otherwise the response takes the token and the id from the result, the email and the
  name from the request.
\<close>

definition signup ::
  "surreal_env \<Rightarrow> user list \<Rightarrow> SignupRequest \<Rightarrow> user list \<times> (db_error + TokenResponse)" where
  "signup env users request =
     (case access_signup env (rq_email request) (rq_name request) users of
        (users', Inl e) \<Rightarrow> (users', Inl e)
      | (users', Inr u) \<Rightarrow>
          (users', Inr \<lparr>tr_token = env_token env, tr_user_id = u_id u,
                        tr_email = rq_email request, tr_name = rq_name request\<rparr>))"

text \<open>
  Two emails are equal case-insensitively when they agree after mapping the letters
  \<open>A\<close> to \<open>Z\<close> to lower case: the comparison the uniqueness claim speaks of.
\<close>

definition lower_char :: "char \<Rightarrow> char" where
  "lower_char c =
     (case map_of (zip ''ABCDEFGHIJKLMNOPQRSTUVWXYZ'' ''abcdefghijklmnopqrstuvwxyz'') c of
        Some l \<Rightarrow> l
      | None \<Rightarrow> c)"

definition same_email_ci :: "string \<Rightarrow> string \<Rightarrow> bool" where
  "same_email_ci x y = (map lower_char x = map lower_char y)"

section \<open>Authentication middleware (api/auth.py)\<close>

text \<open>JSON values, as the decoded token payload holds them, and Python's truth value of one.\<close>

datatype jval = JNull | JBool bool | JNum int | JStr string | JArr "jval list" | JObj "(string \<times> jval) list"

fun truthy :: "jval \<Rightarrow> bool" where
  "truthy JNull = False"
| "truthy (JBool b) = b"
| "truthy (JNum n) = (n \<noteq> 0)"
| "truthy (JStr s) = (s \<noteq> [])"
| "truthy (JArr xs) = (xs \<noteq> [])"
| "truthy (JObj kvs) = (kvs \<noteq> [])"

text \<open>
  The request as the middleware reads it: the path and the value of
  \<^verbatim>\<open>request.headers.get("Authorization")\<close>. \<^verbatim>\<open>request.state\<close> starts without
  \<^verbatim>\<open>user_id\<close> and \<^verbatim>\<open>token\<close>.
\<close>

record request =
  req_path :: string
  req_authorization :: "string option"

record request_state =
  st_user_id :: "jval option"
  st_token :: "string option"

text \<open>
  What \<^verbatim>\<open>dispatch\<close> does: whether it awaited \<^verbatim>\<open>call_next\<close> (and with which request
  state), and what it answered: the handler's response, a JSON response of its own with
  a status and a detail, or an exception that leaves it.
\<close>

datatype 'r response = FromHandler 'r | JSONResponse nat string | Exception

record 'r dispatched =
  called_next :: "request_state option"
  answered :: "'r response"

definition default_excluded_paths :: "string list" where
  "default_excluded_paths =
     [''/'', ''/health'', ''/docs'', ''/openapi.json'', ''/redoc'',
      ''/api/auth/signup'', ''/api/auth/signin'', ''/api/auth/status'']"

text \<open>\<^verbatim>\<open>excluded_paths or [...]\<close>: \<^verbatim>\<open>None\<close> and the empty list both give the default.\<close>

definition init_excluded_paths :: "string list option \<Rightarrow> string list" where
  "init_excluded_paths excluded_paths =
     (case excluded_paths of
        None \<Rightarrow> default_excluded_paths
      | Some ps \<Rightarrow> if ps = [] then default_excluded_paths else ps)"

text \<open>\<^verbatim>\<open>s.split(sep)\<close> for a separator of one character.\<close>

fun split_on :: "char \<Rightarrow> string \<Rightarrow> string list" where
  "split_on sep [] = [[]]"
| "split_on sep (c # cs) =
     (if c = sep then [] # split_on sep cs
      else (case split_on sep cs of
              w # ws \<Rightarrow> (c # w) # ws
            | [] \<Rightarrow> [[c]]))"

text \<open>
  \<^verbatim>\<open>JSONResponse(status_code=401, content={"detail": detail})\<close>, returned without calling
  the handler.
\<close>

definition reject_401 :: "string \<Rightarrow> 'r dispatched" where
  "reject_401 detail = \<lparr>called_next = None, answered = JSONResponse 401 detail\<rparr>"

text \<open>
  \<^verbatim>\<open>JWTAuthMiddleware.dispatch\<close>. Two results come from outside and are inputs:
  \<open>decoded\<close>, what \<^verbatim>\<open>jwt.decode(token, options={"verify_signature": False})\<close> gives
  (\<open>None\<close> when it raises, else the payload as a dictionary), and \<open>next\<close>, how the awaited
  \<^verbatim>\<open>call_next(request)\<close> settles. On an excluded path the handler runs with the state
  untouched and its exception propagates. Otherwise a missing or empty header, or one
  that does not start with \<^verbatim>\<open>"Bearer "\<close>, is answered 401; the token is the second
  piece of the header split at spaces; inside the \<^verbatim>\<open>try\<close>, a decoding error, a missing
  or falsy \<^verbatim>\<open>ID\<close> and an exception of the handler are all answered 401. No step
  compares a signature with a secret.
\<close>

definition dispatch ::
  "string list \<Rightarrow> request \<Rightarrow> (string \<rightharpoonup> jval) option \<Rightarrow> 'r settled \<Rightarrow> 'r dispatched" where
  "dispatch excluded_paths request decoded next =
     (if req_path request \<in> set excluded_paths then
        \<lparr>called_next = Some \<lparr>st_user_id = None, st_token = None\<rparr>,
         answered = (case next of Resolved r \<Rightarrow> FromHandler r | Rejected \<Rightarrow> Exception)\<rparr>
      else
        (case req_authorization request of
           None \<Rightarrow> reject_401 ''Unauthorized''
         | Some auth_header \<Rightarrow>
             if auth_header = [] \<or> \<not> prefix ''Bearer '' auth_header then reject_401 ''Unauthorized''
             else
               (case split_on CHR '' '' auth_header of
                  _ # token # _ \<Rightarrow>
                    (case decoded of
                       None \<Rightarrow> reject_401 ''Invalid token''
                     | Some payload \<Rightarrow>
                         (case payload ''ID'' of
                            None \<Rightarrow> reject_401 ''Invalid token''
                          | Some user_id \<Rightarrow>
                              if \<not> truthy user_id then reject_401 ''Invalid token''
                              else
                                \<lparr>called_next = Some \<lparr>st_user_id = Some user_id, st_token = Some token\<rparr>,
                                 answered =
                                   (case next of
                                      Resolved r \<Rightarrow> FromHandler r
                                    | Rejected \<Rightarrow> JSONResponse 401 ''Invalid token'')\<rparr>))
                | _ \<Rightarrow> \<lparr>called_next = None, answered = Exception\<rparr>)))"

section \<open>Migrations and bootstrap\<close>

text \<open>The persisted state the bootstrap touches: the user table and the schema version.\<close>

record db =
  db_users :: "user list"
  db_version :: nat

text \<open>
  Modelled from the spec: a migration record, whose engine is not among the sources. The
  static list of migrations holds version \<open>k\<close> at position \<open>k - 1\<close>, so versions increase
  without gaps; a forward change-set either fails with a cause or gives the new store.
\<close>

record migration =
  mig_forward :: "db \<Rightarrow> string + db"
  mig_backward :: "(db \<Rightarrow> string + db) option"

datatype bootstrap_error = MigrationError nat string | StoreError db_error

text \<open>
  Modelled from the spec: the engine applies the pending change-sets in ascending
  order; each one runs as a unit and only then is the stored version advanced; on a
  failure it stops and reports the version and the cause. The result is the store and
  the versions applied.
\<close>

fun apply_pending :: "migration list \<Rightarrow> db \<Rightarrow> nat list \<Rightarrow> bootstrap_error + (db \<times> nat list)" where
  "apply_pending [] s applied = Inr (s, applied)"
| "apply_pending (m # ms) s applied =
     (case mig_forward m s of
        Inl cause \<Rightarrow> Inl (MigrationError (Suc (db_version s)) cause)
      | Inr s' \<Rightarrow>
          apply_pending ms (s'\<lparr>db_version := Suc (db_version s)\<rparr>) (applied @ [Suc (db_version s)]))"

text \<open>
  Modelled from the spec: \<^verbatim>\<open>applyForward(toVersion?)\<close> starts one past the current
  version and stops at the target, or at the latest version when there is none.
\<close>

definition applyForward ::
  "migration list \<Rightarrow> nat option \<Rightarrow> db \<Rightarrow> bootstrap_error + (db \<times> nat list)" where
  "applyForward migrations toVersion s =
     (let target = (case toVersion of None \<Rightarrow> length migrations | Some v \<Rightarrow> min v (length migrations))
      in apply_pending (take (target - db_version s) (drop (db_version s) migrations)) s [])"

text \<open>
  The default admin of step 1.4: \<^verbatim>\<open>CREATE user:admin SET email = "admin@localhost", password = crypto::argon2::generate("change-me-immediately"), name = "System Administrator", role = "admin"\<close>.
\<close>

definition default_admin :: "surreal_env \<Rightarrow> user" where
  "default_admin env =
     \<lparr>u_id = ''user:admin'', u_email = ''admin@localhost'', u_password = env_digest env,
      u_name = ''System Administrator'', u_role = ''admin'',
      u_created = env_now env, u_updated = env_now env\<rparr>"

definition admins :: "db \<Rightarrow> user list" where
  "admins s = filter (\<lambda>u. u_role u = ''admin'') (db_users s)"

text \<open>
  Modelled from the spec: step 2 of the bootstrap sequencer, whose code (the API
  startup) is not among the sources. It queries the credential store for an identity
  with role \<open>admin\<close> and, if none exists, creates the default one.
\<close>

definition ensure_admin :: "surreal_env \<Rightarrow> db \<Rightarrow> bootstrap_error + db" where
  "ensure_admin env s =
     (if admins s \<noteq> [] then Inr s
      else (case create_user (env_email_ok env) (default_admin env) (db_users s) of
              (users', Inl e) \<Rightarrow> Inl (StoreError e)
            | (users', Inr u) \<Rightarrow> Inr (s\<lparr>db_users := users'\<rparr>)))"

text \<open>
  Modelled from the spec: the bootstrap sequencer. Step 1 runs the migration engine to
  the latest version and aborts on its error; step 2 ensures the admin identity.
\<close>

definition bootstrap :: "migration list \<Rightarrow> surreal_env \<Rightarrow> db \<Rightarrow> bootstrap_error + db" where
  "bootstrap migrations env s =
     (case applyForward migrations None s of
        Inl e \<Rightarrow> Inl e
      | Inr (s', applied) \<Rightarrow> ensure_admin env s')"

section \<open>Properties of the signup form\<close>

lemma dropWhile_all_iff: "(\<forall>x\<in>set (dropWhile P xs). P x) \<longleftrightarrow> (\<forall>x\<in>set xs. P x)"
proof
  assume a: "\<forall>x\<in>set (dropWhile P xs). P x"
  have "dropWhile P xs = []"
  proof (rule ccontr)
    assume ne: "dropWhile P xs \<noteq> []"
    then have "\<not> P (hd (dropWhile P xs))" by (rule hd_dropWhile)
    moreover from ne have "hd (dropWhile P xs) \<in> set (dropWhile P xs)" by simp
    ultimately show False using a by blast
  qed
  then show "\<forall>x\<in>set xs. P x" by (simp add: dropWhile_eq_Nil_conv)
next
  assume "\<forall>x\<in>set xs. P x"
  then show "\<forall>x\<in>set (dropWhile P xs). P x"
    using set_dropWhileD by fastforce
qed

lemma trim_empty_iff: "trim s = [] \<longleftrightarrow> blank s"
proof -
  have "trim s = [] \<longleftrightarrow> (\<forall>x\<in>set (dropWhile is_js_space s). is_js_space x)"
    by (simp add: trim_def)
  also have "\<dots> \<longleftrightarrow> (\<forall>x\<in>set s. is_js_space x)" by (rule dropWhile_all_iff)
  finally show ?thesis by (simp add: blank_def list_all_iff)
qed

lemma handleSubmit_accepts_valid:
  assumes "\<not> blank (f_name f)" and "\<not> blank (f_email f)" and "\<not> blank (f_password f)"
    and "8 \<le> length (f_password f)" and "f_password f = f_confirmPassword f"
  shows "handleSubmit f =
         \<lparr>localError = None,
          signup_calls = [\<lparr>sc_name = f_name f, sc_email = f_email f, sc_password = f_password f\<rparr>]\<rparr>"
  using assms by (simp add: handleSubmit_def trim_empty_iff)

text \<open>
  C10. The submit handler never invokes the signup operation when the password and the
  confirmation differ, when the password is shorter than 8 characters, or when name,
  email or password is blank: in each of those states it issues no request and leaves
  a local error message set.
\<close>

theorem handleSubmit_rejects_invalid:
  assumes "f_password f \<noteq> f_confirmPassword f \<or> length (f_password f) < 8
           \<or> blank (f_name f) \<or> blank (f_email f) \<or> blank (f_password f)"
  shows "signup_calls (handleSubmit f) = [] \<and> localError (handleSubmit f) \<noteq> None"
  using assms by (auto simp: handleSubmit_def trim_empty_iff)

theorem handleSubmit_rejects_invalid_witness:
  "signup_calls (handleSubmit \<lparr>f_name = ''Ann'', f_email = ''ann@x.com'',
       f_password = ''password123'', f_confirmPassword = ''password124''\<rparr>) = []
   \<and> localError (handleSubmit \<lparr>f_name = ''Ann'', f_email = ''ann@x.com'',
       f_password = ''password123'', f_confirmPassword = ''password124''\<rparr>) \<noteq> None"
  using handleSubmit_rejects_invalid
    [of "\<lparr>f_name = ''Ann'', f_email = ''ann@x.com'',
          f_password = ''password123'', f_confirmPassword = ''password124''\<rparr>"]
  by simp

section \<open>Properties of the protected route\<close>

text \<open>
  C9. The component renders its protected children only if \<^verbatim>\<open>authRequired === false\<close>
  or \<^verbatim>\<open>isAuthenticated === true\<close>; in every other state it renders the loading
  indicator. When the check of the authentication requirement threw (so the
  requirement is still undetermined), the component shows the loading indicator and the
  effect behaves as if authentication were required: it redirects an unauthenticated
  user to \<^verbatim>\<open>/login\<close>.
\<close>

theorem ProtectedRoute_fails_closed:
  "(ProtectedRoute s = Children \<longrightarrow> authRequired s = Some False \<or> isAuthenticated s)
   \<and> (\<not> (authRequired s = Some False \<or> isAuthenticated s) \<longrightarrow> ProtectedRoute s = LoadingSpinner)
   \<and> (authRequired s = None \<longrightarrow> ProtectedRoute s = LoadingSpinner)
   \<and> (hasHydrated s \<and> authRequired s = None \<longrightarrow>
        checkAuthentication s p Rejected ca = checkAuthentication s p (Resolved True) ca)
   \<and> (hasHydrated s \<and> authRequired s = None \<and> \<not> isAuthenticated s \<longrightarrow>
        checkAuthentication s p Rejected ca = [SetItem ''redirectAfterLogin'' p, RouterPush ''/login''])"
  by (simp add: ProtectedRoute_def checkAuthentication_def redirect_to_login_def)

theorem ProtectedRoute_fails_closed_witness:
  "ProtectedRoute \<lparr>hasHydrated = True, authRequired = None, isAuthenticated = False\<rparr> = LoadingSpinner
   \<and> ProtectedRoute \<lparr>hasHydrated = True, authRequired = Some True, isAuthenticated = False\<rparr>
       = LoadingSpinner
   \<and> checkAuthentication \<lparr>hasHydrated = True, authRequired = None, isAuthenticated = False\<rparr>
         ''/notebooks'' Rejected (Resolved True)
       = [SetItem ''redirectAfterLogin'' ''/notebooks'', RouterPush ''/login'']"
  using ProtectedRoute_fails_closed
      [of "\<lparr>hasHydrated = True, authRequired = None, isAuthenticated = False\<rparr>"
          "''/notebooks''" "Resolved True"]
    ProtectedRoute_fails_closed
      [of "\<lparr>hasHydrated = True, authRequired = Some True, isAuthenticated = False\<rparr>"]
  by (simp add: checkAuthentication_def redirect_to_login_def)

section \<open>Properties of the tenancy layer\<close>







section \<open>Properties of the domain model\<close>

text \<open>
  C6. Creating a notebook for an authenticated caller stores the caller's id in the owner
  field: the object handed to the persistence layer has \<^verbatim>\<open>user_id\<close> equal to the caller's
  id whatever the payload carried there, the other fields are the payload's, and the
  record passes the table's create permission for that caller.
\<close>

theorem Notebook_create_sets_owner:
  "nb_user_id (fst (Notebook_create super_create (payload\<lparr>nb_user_id := supplied\<rparr>) caller)) = Some caller
   \<and> Notebook_create super_create (payload\<lparr>nb_user_id := supplied\<rparr>) caller
       = (payload\<lparr>nb_user_id := Some caller\<rparr>, super_create (payload\<lparr>nb_user_id := Some caller\<rparr>))
   \<and> permissions T_notebook Create \<lparr>auth_id = caller, auth_role = role\<rparr>
        (nb_user_id (fst (Notebook_create super_create (payload\<lparr>nb_user_id := supplied\<rparr>) caller)))"
  by (simp add: Notebook_create_def Let_def)

section \<open>Properties of signup\<close>

text \<open>
  C4, as the code has it. A signup whose email is identical to the email of a stored user
  fails and leaves the user table as it was; when the email passes the field's assertion
  and the generated id is new, the error is the violation of the unique index
  \<^verbatim>\<open>email_unique\<close>. The index compares the stored strings, so the match is exact.
\<close>

theorem signup_duplicate_email:
  assumes "\<exists>u\<in>set users. u_email u = rq_email request"
  shows "fst (signup env users request) = users
       \<and> (\<exists>e. snd (signup env users request) = Inl e)
       \<and> (env_email_ok env \<and> env_new_id env \<notin> set (map u_id users) \<longrightarrow>
            snd (signup env users request) = Inl (IndexExists ''email_unique'' (rq_email request)))"
proof -
  from assms have dup: "rq_email request \<in> set (map u_email users)" by force
  then show ?thesis
    by (simp add: signup_def access_signup_def create_user_def)
qed

theorem signup_duplicate_email_witness:
  "fst (signup \<lparr>env_now = 1000, env_new_id = ''user:2'', env_digest = ''$argon2id$d2'',
                env_email_ok = True, env_token = ''t2''\<rparr>
          [\<lparr>u_id = ''user:1'', u_email = ''ann@x.com'', u_password = ''$argon2id$d1'',
            u_name = ''Ann'', u_role = ''user'', u_created = 0, u_updated = 0\<rparr>]
          \<lparr>rq_email = ''ann@x.com'', rq_password = ''password123'', rq_name = ''Ann''\<rparr>)
     = [\<lparr>u_id = ''user:1'', u_email = ''ann@x.com'', u_password = ''$argon2id$d1'',
          u_name = ''Ann'', u_role = ''user'', u_created = 0, u_updated = 0\<rparr>]
   \<and> snd (signup \<lparr>env_now = 1000, env_new_id = ''user:2'', env_digest = ''$argon2id$d2'',
                env_email_ok = True, env_token = ''t2''\<rparr>
          [\<lparr>u_id = ''user:1'', u_email = ''ann@x.com'', u_password = ''$argon2id$d1'',
            u_name = ''Ann'', u_role = ''user'', u_created = 0, u_updated = 0\<rparr>]
          \<lparr>rq_email = ''ann@x.com'', rq_password = ''password123'', rq_name = ''Ann''\<rparr>)
     = Inl (IndexExists ''email_unique'' ''ann@x.com'')"
  using signup_duplicate_email
    [of "[\<lparr>u_id = ''user:1'', u_email = ''ann@x.com'', u_password = ''$argon2id$d1'',
            u_name = ''Ann'', u_role = ''user'', u_created = 0, u_updated = 0\<rparr>]"
        "\<lparr>rq_email = ''ann@x.com'', rq_password = ''password123'', rq_name = ''Ann''\<rparr>"
        "\<lparr>env_now = 1000, env_new_id = ''user:2'', env_digest = ''$argon2id$d2'',
                env_email_ok = True, env_token = ''t2''\<rparr>"]
  by simp

text \<open>
  The claim as stated fails: with \<^verbatim>\<open>ann@x.com\<close> stored, a signup as \<^verbatim>\<open>Ann@x.com\<close>, equal
  to it case-insensitively, succeeds and a second user record is created.
\<close>

theorem signup_case_variant_counterexample:
  "same_email_ci ''Ann@x.com'' ''ann@x.com''
   \<and> signup \<lparr>env_now = 1000, env_new_id = ''user:2'', env_digest = ''$argon2id$d2'',
              env_email_ok = True, env_token = ''t2''\<rparr>
        [\<lparr>u_id = ''user:1'', u_email = ''ann@x.com'', u_password = ''$argon2id$d1'',
          u_name = ''Ann'', u_role = ''user'', u_created = 0, u_updated = 0\<rparr>]
        \<lparr>rq_email = ''Ann@x.com'', rq_password = ''password123'', rq_name = ''Ann''\<rparr>
     = ([\<lparr>u_id = ''user:1'', u_email = ''ann@x.com'', u_password = ''$argon2id$d1'',
           u_name = ''Ann'', u_role = ''user'', u_created = 0, u_updated = 0\<rparr>,
         \<lparr>u_id = ''user:2'', u_email = ''Ann@x.com'', u_password = ''$argon2id$d2'',
           u_name = ''Ann'', u_role = ''user'', u_created = 1000, u_updated = 1000\<rparr>],
        Inr \<lparr>tr_token = ''t2'', tr_user_id = ''user:2'', tr_email = ''Ann@x.com'', tr_name = ''Ann''\<rparr>)"
  by (simp add: same_email_ci_def lower_char_def signup_def access_signup_def create_user_def)

text \<open>
  C5, evaluated on a successful signup. The response body has the four fields
  \<^verbatim>\<open>token\<close>, \<^verbatim>\<open>user_id\<close>, \<^verbatim>\<open>email\<close> and \<^verbatim>\<open>name\<close>; the \<^verbatim>\<open>role\<close> field that the frontend's
  \<^verbatim>\<open>AuthResponse\<close> reads is not among them.
\<close>

theorem signup_response_lacks_role:
  "snd (signup \<lparr>env_now = 1000, env_new_id = ''user:1'', env_digest = ''$argon2id$d1'',
                env_email_ok = True, env_token = ''t1''\<rparr> []
          \<lparr>rq_email = ''ann@x.com'', rq_password = ''password123'', rq_name = ''Ann''\<rparr>)
     = Inr \<lparr>tr_token = ''t1'', tr_user_id = ''user:1'', tr_email = ''ann@x.com'', tr_name = ''Ann''\<rparr>
   \<and> map fst (TokenResponse_fields
        \<lparr>tr_token = ''t1'', tr_user_id = ''user:1'', tr_email = ''ann@x.com'', tr_name = ''Ann''\<rparr>)
       = [''token'', ''user_id'', ''email'', ''name'']
   \<and> ''role'' \<notin> set (map fst (TokenResponse_fields
        \<lparr>tr_token = ''t1'', tr_user_id = ''user:1'', tr_email = ''ann@x.com'', tr_name = ''Ann''\<rparr>))
   \<and> ''role'' \<in> set AuthResponse_keys"
  by (simp add: signup_def access_signup_def create_user_def TokenResponse_fields_def
      AuthResponse_keys_def)

section \<open>Properties of the token lifetime\<close>




section \<open>Properties of the middleware\<close>

lemma split_on_nonempty: "split_on sep s \<noteq> []"
  by (induction s) (auto split: list.splits)

lemma hd_split_on: "hd (split_on sep s) = takeWhile (\<lambda>c. c \<noteq> sep) s"
  by (induction s) (auto split: list.splits simp: split_on_nonempty)

lemma token_of_header:
  "\<exists>ws. split_on CHR '' '' (''Bearer '' @ rest)
        = ''Bearer'' # takeWhile (\<lambda>c. c \<noteq> CHR '' '') rest # ws"
proof -
  obtain w ws where sp: "split_on CHR '' '' rest = w # ws"
    using split_on_nonempty by (cases "split_on CHR '' '' rest") auto
  then have "w = takeWhile (\<lambda>c. c \<noteq> CHR '' '') rest"
    using hd_split_on [of "CHR '' ''" rest] by simp
  with sp show ?thesis by simp
qed

text \<open>
  C2, as the code has it. The middleware compares no signature with a secret: it decodes
  the token with the verification switched off and leaves validation to the database.
  For a request outside the excluded paths with a header \<^verbatim>\<open>Bearer <token>\<close> whose claim
  structure parses, whatever its signature: if the payload has a truthy \<^verbatim>\<open>ID\<close>, the
  middleware calls the handler with that id and the token in the request state, and
  answers with the handler's response, or with 401 if the handler raises; if the
  \<^verbatim>\<open>ID\<close> is missing or falsy, it answers 401 without calling the handler.
\<close>

theorem dispatch_without_signature_check:
  assumes "req_path request \<notin> set excluded_paths"
    and "req_authorization request = Some (''Bearer '' @ rest)"
    and "decoded = Some payload"
  shows "(\<forall>user_id. payload ''ID'' = Some user_id \<and> truthy user_id \<longrightarrow>
            dispatch excluded_paths request decoded next
            = \<lparr>called_next = Some \<lparr>st_user_id = Some user_id,
                   st_token = Some (takeWhile (\<lambda>c. c \<noteq> CHR '' '') rest)\<rparr>,
               answered = (case next of
                             Resolved r \<Rightarrow> FromHandler r
                           | Rejected \<Rightarrow> JSONResponse 401 ''Invalid token'')\<rparr>)
       \<and> ((\<forall>user_id. payload ''ID'' = Some user_id \<longrightarrow> \<not> truthy user_id) \<longrightarrow>
            dispatch excluded_paths request decoded next = reject_401 ''Invalid token'')"
proof -
  obtain ws where sp: "split_on CHR '' '' (''Bearer '' @ rest)
      = ''Bearer'' # takeWhile (\<lambda>c. c \<noteq> CHR '' '') rest # ws"
    using token_of_header by blast
  have header: "prefix ''Bearer '' (''Bearer '' @ rest)" "''Bearer '' @ rest \<noteq> []"
    by simp_all
  show ?thesis
  proof (cases "payload ''ID''")
    case None
    then show ?thesis
      using assms header by (simp add: dispatch_def sp del: append.simps split_on.simps)
  next
    case (Some uid)
    then show ?thesis
      using assms header by (simp add: dispatch_def sp del: append.simps split_on.simps)
  qed
qed

theorem dispatch_without_signature_check_witness:
  "dispatch (init_excluded_paths None)
     \<lparr>req_path = ''/api/notebooks'',
      req_authorization = Some ''Bearer eyJhbGciOiJIUzI1NiIsInR5cCI6IkpXVCJ9.eyJJRCI6InVzZXI6YWxpY2UifQ.forged''\<rparr>
     (Some [''ID'' \<mapsto> JStr ''user:alice'']) (Resolved ''[]'')
   = \<lparr>called_next = Some \<lparr>st_user_id = Some (JStr ''user:alice''),
         st_token = Some ''eyJhbGciOiJIUzI1NiIsInR5cCI6IkpXVCJ9.eyJJRCI6InVzZXI6YWxpY2UifQ.forged''\<rparr>,
      answered = FromHandler ''[]''\<rparr>
   \<and> dispatch (init_excluded_paths None)
     \<lparr>req_path = ''/api/notebooks'',
      req_authorization = Some ''Bearer eyJhbGciOiJIUzI1NiIsInR5cCI6IkpXVCJ9.eyJJRCI6InVzZXI6YWxpY2UifQ.forged''\<rparr>
     (Some [''ID'' \<mapsto> JStr ''user:alice'']) (Rejected :: string settled)
   = \<lparr>called_next = Some \<lparr>st_user_id = Some (JStr ''user:alice''),
         st_token = Some ''eyJhbGciOiJIUzI1NiIsInR5cCI6IkpXVCJ9.eyJJRCI6InVzZXI6YWxpY2UifQ.forged''\<rparr>,
      answered = JSONResponse 401 ''Invalid token''\<rparr>
   \<and> dispatch (init_excluded_paths None)
     \<lparr>req_path = ''/api/notebooks'',
      req_authorization = Some ''Bearer eyJhbGciOiJIUzI1NiIsInR5cCI6IkpXVCJ9.eyJJRCI6InVzZXI6YWxpY2UifQ.forged''\<rparr>
     (Some [''sub'' \<mapsto> JStr ''user:alice'']) (Resolved ''[]'')
   = reject_401 ''Invalid token''"
  using dispatch_without_signature_check
      [of "\<lparr>req_path = ''/api/notebooks'',
      req_authorization = Some ''Bearer eyJhbGciOiJIUzI1NiIsInR5cCI6IkpXVCJ9.eyJJRCI6InVzZXI6YWxpY2UifQ.forged''\<rparr>"
          "init_excluded_paths None" "''eyJhbGciOiJIUzI1NiIsInR5cCI6IkpXVCJ9.eyJJRCI6InVzZXI6YWxpY2UifQ.forged''"
          "Some [''ID'' \<mapsto> JStr ''user:alice'']" "[''ID'' \<mapsto> JStr ''user:alice'']" "Resolved ''[]''"]
    dispatch_without_signature_check
      [of "\<lparr>req_path = ''/api/notebooks'',
      req_authorization = Some ''Bearer eyJhbGciOiJIUzI1NiIsInR5cCI6IkpXVCJ9.eyJJRCI6InVzZXI6YWxpY2UifQ.forged''\<rparr>"
          "init_excluded_paths None" "''eyJhbGciOiJIUzI1NiIsInR5cCI6IkpXVCJ9.eyJJRCI6InVzZXI6YWxpY2UifQ.forged''"
          "Some [''ID'' \<mapsto> JStr ''user:alice'']" "[''ID'' \<mapsto> JStr ''user:alice'']"
          "Rejected :: string settled"]
    dispatch_without_signature_check
      [of "\<lparr>req_path = ''/api/notebooks'',
      req_authorization = Some ''Bearer eyJhbGciOiJIUzI1NiIsInR5cCI6IkpXVCJ9.eyJJRCI6InVzZXI6YWxpY2UifQ.forged''\<rparr>"
          "init_excluded_paths None" "''eyJhbGciOiJIUzI1NiIsInR5cCI6IkpXVCJ9.eyJJRCI6InVzZXI6YWxpY2UifQ.forged''"
          "Some [''sub'' \<mapsto> JStr ''user:alice'']" "[''sub'' \<mapsto> JStr ''user:alice'']" "Resolved ''[]''"]
  by (simp add: init_excluded_paths_def default_excluded_paths_def)

text \<open>
  The claim as stated fails on a forged token. The header carries a token whose payload
  decodes to \<^verbatim>\<open>{"ID": "user:alice"}\<close> and whose third part, \<^verbatim>\<open>forged\<close>, is the
  signature of no secret. The middleware does not reject the request: it calls the
  handler with \<^verbatim>\<open>user:alice\<close> as the user and returns the handler's response.
\<close>

theorem dispatch_forged_token_counterexample:
  "called_next (dispatch (init_excluded_paths None)
     \<lparr>req_path = ''/api/notebooks'',
      req_authorization = Some ''Bearer eyJhbGciOiJIUzI1NiIsInR5cCI6IkpXVCJ9.eyJJRCI6InVzZXI6YWxpY2UifQ.forged''\<rparr>
     (Some [''ID'' \<mapsto> JStr ''user:alice'']) (Resolved ''[]''))
   = Some \<lparr>st_user_id = Some (JStr ''user:alice''),
         st_token = Some ''eyJhbGciOiJIUzI1NiIsInR5cCI6IkpXVCJ9.eyJJRCI6InVzZXI6YWxpY2UifQ.forged''\<rparr>
   \<and> answered (dispatch (init_excluded_paths None)
     \<lparr>req_path = ''/api/notebooks'',
      req_authorization = Some ''Bearer eyJhbGciOiJIUzI1NiIsInR5cCI6IkpXVCJ9.eyJJRCI6InVzZXI6YWxpY2UifQ.forged''\<rparr>
     (Some [''ID'' \<mapsto> JStr ''user:alice'']) (Resolved ''[]''))
   = FromHandler ''[]''"
  by (simp add: dispatch_def init_excluded_paths_def default_excluded_paths_def)

section \<open>Properties of the bootstrap\<close>

lemma apply_pending_version:
  "apply_pending ms s applied = Inr (s1, ap) \<Longrightarrow> db_version s1 = db_version s + length ms"
proof (induction ms arbitrary: s applied)
  case Nil
  then show ?case by simp
next
  case (Cons m ms)
  then show ?case by (auto split: sum.splits)
qed

lemma applyForward_reaches_latest:
  assumes "applyForward migrations None s = Inr (s1, ap)"
  shows "length migrations \<le> db_version s1"
proof -
  let ?pending = "take (length migrations - db_version s) (drop (db_version s) migrations)"
  from assms have "apply_pending ?pending s [] = Inr (s1, ap)"
    by (simp add: applyForward_def)
  then have "db_version s1 = db_version s + length ?pending"
    by (rule apply_pending_version)
  then show ?thesis by simp
qed

lemma applyForward_current:
  "length migrations \<le> db_version s \<Longrightarrow> applyForward migrations None s = Inr (s, [])"
  by (simp add: applyForward_def)

lemma admins_default_admin: "admins (s\<lparr>db_users := db_users s @ [default_admin env]\<rparr>)
   = admins s @ [default_admin env]"
  by (simp add: admins_def default_admin_def)

lemma ensure_admin_present: "admins s \<noteq> [] \<Longrightarrow> ensure_admin env s = Inr s"
  by (simp add: ensure_admin_def)

lemma ensure_admin_result:
  assumes "ensure_admin env s = Inr s1"
  shows "db_version s1 = db_version s"
    and "admins s \<noteq> [] \<Longrightarrow> s1 = s"
    and "admins s = [] \<Longrightarrow> admins s1 = [default_admin env]"
  using assms admins_default_admin [of s env]
  by (auto simp: ensure_admin_def create_user_def split: if_splits)

text \<open>
  C8, as the model has it. After a bootstrap run that succeeds, a second run changes
  nothing: it applies no migration, the admin step creates no identity, and the store
  (the schema version with it) is the one the first run left. At least one admin
  identity exists then. Their number is the number the store held once the first run's
  migrations were applied, or one if it held none: the sequencer creates the default
  admin only when there is no admin, and never removes one.
\<close>

theorem bootstrap_twice:
  assumes first: "bootstrap migrations env1 s = Inr s1"
  shows "applyForward migrations None s1 = Inr (s1, [])
       \<and> ensure_admin env2 s1 = Inr s1
       \<and> bootstrap migrations env2 s1 = Inr s1
       \<and> admins s1 \<noteq> []
       \<and> (\<forall>sm ap. applyForward migrations None s = Inr (sm, ap) \<longrightarrow>
            db_version s1 = db_version sm \<and> length (admins s1) = max 1 (length (admins sm)))"
proof -
  from first obtain sm ap where
    migrated: "applyForward migrations None s = Inr (sm, ap)" and
    ensured: "ensure_admin env1 sm = Inr s1"
    by (auto simp: bootstrap_def split: sum.splits prod.splits)
  have version: "db_version s1 = db_version sm"
    using ensure_admin_result(1) [OF ensured] .
  have some_admin: "admins s1 \<noteq> []"
  proof (cases "admins sm = []")
    case True
    then show ?thesis using ensure_admin_result(3) [OF ensured] by simp
  next
    case False
    then show ?thesis using ensure_admin_result(2) [OF ensured] by simp
  qed
  have count: "length (admins s1) = max 1 (length (admins sm))"
  proof (cases "admins sm = []")
    case True
    then show ?thesis using ensure_admin_result(3) [OF ensured] by simp
  next
    case False
    then have "s1 = sm" using ensure_admin_result(2) [OF ensured] by simp
    moreover from False have "1 \<le> length (admins sm)" by (cases "admins sm") auto
    ultimately show ?thesis by simp
  qed
  have "length migrations \<le> db_version s1"
    using applyForward_reaches_latest [OF migrated] version by simp
  then have no_migration: "applyForward migrations None s1 = Inr (s1, [])"
    by (rule applyForward_current)
  have no_creation: "ensure_admin env2 s1 = Inr s1"
    using some_admin by (rule ensure_admin_present)
  have again: "bootstrap migrations env2 s1 = Inr s1"
    using no_migration no_creation by (simp add: bootstrap_def)
  from no_migration no_creation again some_admin version count migrated
  show ?thesis by auto
qed

theorem bootstrap_twice_witness:
  "bootstrap [\<lparr>mig_forward = Inr, mig_backward = None\<rparr>]
     \<lparr>env_now = 1000, env_new_id = ''user:x1'', env_digest = ''$argon2id$d1'',
      env_email_ok = True, env_token = []\<rparr>
     \<lparr>db_users = [], db_version = 0\<rparr>
   = Inr \<lparr>db_users = [\<lparr>u_id = ''user:admin'', u_email = ''admin@localhost'',
             u_password = ''$argon2id$d1'', u_name = ''System Administrator'',
             u_role = ''admin'', u_created = 1000, u_updated = 1000\<rparr>], db_version = 1\<rparr>
   \<and> bootstrap [\<lparr>mig_forward = Inr, mig_backward = None\<rparr>]
     \<lparr>env_now = 2000, env_new_id = ''user:x2'', env_digest = ''$argon2id$d2'',
      env_email_ok = True, env_token = []\<rparr>
     \<lparr>db_users = [\<lparr>u_id = ''user:admin'', u_email = ''admin@localhost'',
             u_password = ''$argon2id$d1'', u_name = ''System Administrator'',
             u_role = ''admin'', u_created = 1000, u_updated = 1000\<rparr>], db_version = 1\<rparr>
   = Inr \<lparr>db_users = [\<lparr>u_id = ''user:admin'', u_email = ''admin@localhost'',
             u_password = ''$argon2id$d1'', u_name = ''System Administrator'',
             u_role = ''admin'', u_created = 1000, u_updated = 1000\<rparr>], db_version = 1\<rparr>
   \<and> length (admins \<lparr>db_users = [\<lparr>u_id = ''user:admin'', u_email = ''admin@localhost'',
             u_password = ''$argon2id$d1'', u_name = ''System Administrator'',
             u_role = ''admin'', u_created = 1000, u_updated = 1000\<rparr>], db_version = 1\<rparr>) = 1"
proof -
  have first: "bootstrap [\<lparr>mig_forward = Inr, mig_backward = None\<rparr>]
     \<lparr>env_now = 1000, env_new_id = ''user:x1'', env_digest = ''$argon2id$d1'',
      env_email_ok = True, env_token = []\<rparr>
     \<lparr>db_users = [], db_version = 0\<rparr>
   = Inr \<lparr>db_users = [\<lparr>u_id = ''user:admin'', u_email = ''admin@localhost'',
             u_password = ''$argon2id$d1'', u_name = ''System Administrator'',
             u_role = ''admin'', u_created = 1000, u_updated = 1000\<rparr>], db_version = 1\<rparr>"
    by (simp add: bootstrap_def applyForward_def ensure_admin_def admins_def create_user_def
        default_admin_def)
  show ?thesis
    using first bootstrap_twice [OF first,
      of "\<lparr>env_now = 2000, env_new_id = ''user:x2'', env_digest = ''$argon2id$d2'',
           env_email_ok = True, env_token = []\<rparr>"]
    by (simp add: admins_def)
qed

text \<open>
  The claim as stated fails for a store that already holds two admin identities (an
  admin may promote a user): the run succeeds, and so does every later one, leaving both.
\<close>

theorem bootstrap_two_admins_counterexample:
  "bootstrap []
     \<lparr>env_now = 1000, env_new_id = ''user:x1'', env_digest = ''$argon2id$d3'',
      env_email_ok = True, env_token = []\<rparr>
     \<lparr>db_users = [\<lparr>u_id = ''user:admin'', u_email = ''admin@localhost'',
             u_password = ''$argon2id$d1'', u_name = ''System Administrator'',
             u_role = ''admin'', u_created = 0, u_updated = 0\<rparr>,
           \<lparr>u_id = ''user:ann'', u_email = ''ann@x.com'',
             u_password = ''$argon2id$d2'', u_name = ''Ann'',
             u_role = ''admin'', u_created = 10, u_updated = 20\<rparr>], db_version = 0\<rparr>
   = Inr \<lparr>db_users = [\<lparr>u_id = ''user:admin'', u_email = ''admin@localhost'',
             u_password = ''$argon2id$d1'', u_name = ''System Administrator'',
             u_role = ''admin'', u_created = 0, u_updated = 0\<rparr>,
           \<lparr>u_id = ''user:ann'', u_email = ''ann@x.com'',
             u_password = ''$argon2id$d2'', u_name = ''Ann'',
             u_role = ''admin'', u_created = 10, u_updated = 20\<rparr>], db_version = 0\<rparr>
   \<and> length (admins \<lparr>db_users = [\<lparr>u_id = ''user:admin'', u_email = ''admin@localhost'',
             u_password = ''$argon2id$d1'', u_name = ''System Administrator'',
             u_role = ''admin'', u_created = 0, u_updated = 0\<rparr>,
           \<lparr>u_id = ''user:ann'', u_email = ''ann@x.com'',
             u_password = ''$argon2id$d2'', u_name = ''Ann'',
             u_role = ''admin'', u_created = 10, u_updated = 20\<rparr>], db_version = 0\<rparr>) = 2"
  by (simp add: bootstrap_def applyForward_def ensure_admin_def admins_def)

end
